theory Spec2Isabelle
  imports Complex_Main
begin

section \<open>Sub-frame interpolation of rendered targets (src/engine/interpolate.js)\<close>

text \<open>
  The module has two functions, \<open>setupInitialState\<close> and \<open>interpolate\<close>. Both walk
  \<open>runtime.targets\<close>; the first writes each target's \<open>interpolationData\<close>, the second
  reads it and issues update calls to the renderer.

  Modelling decisions:
  \<^item> A JavaScript number is a \<open>real\<close>: rounding, NaN, infinities and the sign of zero
    are not represented. \<open>Math.PI\<close> is \<open>pi\<close>, \<open>Math.sign\<close> is \<open>sgn\<close>.
  \<^item> The two-element scale arrays live in an explicit store, because \<open>interpolate\<close>
    writes \<open>scale[0]\<close> and \<open>scale[1]\<close> in place while the snapshot holds a reference to
    another array of the same kind.
  \<^item> The renderer is an external collaborator. Its drawable table is a finite map, and
    each of the three update methods is recorded as an entry of a call log.
  \<^item> Reading a property of \<open>undefined\<close> raises \<open>TypeError\<close>; a raise ends the loop and is
    returned as a value together with the state reached.
\<close>

subsection \<open>Store of scale arrays\<close>

type_synonym addr = nat

record heap =
  arrays :: "addr \<Rightarrow> real \<times> real"
  fresh :: addr

definition read0 :: "heap \<Rightarrow> addr \<Rightarrow> real" where
  "read0 h a = fst (arrays h a)"

definition read1 :: "heap \<Rightarrow> addr \<Rightarrow> real" where
  "read1 h a = snd (arrays h a)"

definition write0 :: "heap \<Rightarrow> addr \<Rightarrow> real \<Rightarrow> heap" where
  "write0 h a v = h\<lparr>arrays := (arrays h)(a := (v, snd (arrays h a)))\<rparr>"

definition write1 :: "heap \<Rightarrow> addr \<Rightarrow> real \<Rightarrow> heap" where
  "write1 h a v = h\<lparr>arrays := (arrays h)(a := (fst (arrays h a), v))\<rparr>"

definition alloc :: "heap \<Rightarrow> real \<times> real \<Rightarrow> addr \<times> heap" where
  "alloc h v = (fresh h, \<lparr>arrays = (arrays h)(fresh h := v), fresh = Suc (fresh h)\<rparr>)"

subsection \<open>Targets, snapshots and the renderer\<close>

record snapshot =
  snap_x :: real
  snap_y :: real
  snap_direction :: real
  snap_scale :: addr
  snap_costume :: nat
  snap_ghost :: real

record effects =
  ghost :: real

text \<open>
  \<open>target_x\<close> and \<open>target_y\<close> are the fields \<open>x\<close> and \<open>y\<close>. The fields
  \<open>renderedDirection\<close> and \<open>renderedScale\<close> stand for the rest of the logical state
  (direction, size, rotation style) as far as this module can observe it: they are the
  values that \<open>_getRenderedDirectionAndScale\<close> computes from it.
\<close>

record target =
  target_x :: real
  target_y :: real
  effects :: effects
  currentCostume :: nat
  visible :: bool
  isStage :: bool
  drawableID :: nat
  renderedDirection :: real
  renderedScale :: "real \<times> real"
  interpolationData :: "snapshot option"

record bounds =
  width :: real
  height :: real

record drawable =
  getAABB :: bounds

datatype call =
    UpdateDrawablePosition nat "real \<times> real"
  | UpdateDrawableEffect nat string real
  | UpdateDrawableDirectionScale nat real "real \<times> real"

record renderer =
  allDrawables :: "nat \<rightharpoonup> drawable"
  calls :: "call list"

record runtime =
  targets :: "target list"
  renderer :: "renderer option"

datatype error = TypeError

datatype 'a completion = Normal 'a | Throw error 'a

definition updateDrawablePosition :: "renderer \<Rightarrow> nat \<Rightarrow> real \<times> real \<Rightarrow> renderer" where
  "updateDrawablePosition r i p = r\<lparr>calls := calls r @ [UpdateDrawablePosition i p]\<rparr>"

definition updateDrawableEffect :: "renderer \<Rightarrow> nat \<Rightarrow> string \<Rightarrow> real \<Rightarrow> renderer" where
  "updateDrawableEffect r i n v = r\<lparr>calls := calls r @ [UpdateDrawableEffect i n v]\<rparr>"

definition updateDrawableDirectionScale ::
  "renderer \<Rightarrow> nat \<Rightarrow> real \<Rightarrow> real \<times> real \<Rightarrow> renderer" where
  "updateDrawableDirectionScale r i d s =
     r\<lparr>calls := calls r @ [UpdateDrawableDirectionScale i d s]\<rparr>"

text \<open>
  Modelled from the spec: \<open>_getRenderedDirectionAndScale\<close> is a method of the target
  class, which is not part of this file. The spec describes it as a pure function of
  the logical state that yields the direction and the scale as currently rendered; it
  is modelled as building a new scale array on every call.
\<close>

definition getRenderedDirectionAndScale :: "target \<Rightarrow> heap \<Rightarrow> (real \<times> addr) \<times> heap" where
  "getRenderedDirectionAndScale tg h =
     (let (a, h') = alloc h (renderedScale tg) in ((renderedDirection tg, a), h'))"

text \<open>\<open>Math.atan2 y x\<close> on the reals, with value in \<open>(-pi, pi]\<close>.\<close>

definition atan2 :: "real \<Rightarrow> real \<Rightarrow> real" where
  "atan2 y x =
     (if 0 < x then arctan (y / x)
      else if x < 0 then (if 0 \<le> y then arctan (y / x) + pi else arctan (y / x) - pi)
      else if 0 < y then pi / 2
      else if y < 0 then - (pi / 2)
      else 0)"

subsection \<open>setupInitialState\<close>

definition setup_target :: "target \<Rightarrow> heap \<Rightarrow> target \<times> heap" where
  "setup_target tg h =
     (if visible tg \<and> \<not> isStage tg then
        (let (directionAndScale, h') = getRenderedDirectionAndScale tg h
         in (tg\<lparr>interpolationData := Some
               \<lparr>snap_x = target_x tg,
                snap_y = target_y tg,
                snap_direction = fst directionAndScale,
                snap_scale = snd directionAndScale,
                snap_costume = currentCostume tg,
                snap_ghost = ghost (effects tg)\<rparr>\<rparr>, h'))
      else (tg\<lparr>interpolationData := None\<rparr>, h))"

fun setup_loop :: "target list \<Rightarrow> heap \<Rightarrow> target list \<times> heap" where
  "setup_loop [] h = ([], h)"
| "setup_loop (tg # tgs) h =
     (let (tg', h') = setup_target tg h;
          (tgs', h'') = setup_loop tgs h'
      in (tg' # tgs', h''))"

definition setupInitialState :: "runtime \<Rightarrow> heap \<Rightarrow> runtime \<times> heap" where
  "setupInitialState rt h =
     (let (tgs', h') = setup_loop (targets rt) h in (rt\<lparr>targets := tgs'\<rparr>, h'))"

subsection \<open>interpolate\<close>

text \<open>Lines 44 to 63: position. The drawable is looked up only when the target moved.\<close>

definition interpolate_position ::
  "renderer \<Rightarrow> target \<Rightarrow> snapshot \<Rightarrow> real \<Rightarrow> error + renderer" where
  "interpolate_position r tg d time =
     (let xDistance = target_x tg - snap_x d;
          yDistance = target_y tg - snap_y d;
          absoluteXDistance = \<bar>xDistance\<bar>;
          absoluteYDistance = \<bar>yDistance\<bar>
      in if absoluteXDistance > 1 / 10 \<or> absoluteYDistance > 1 / 10 then
           (case allDrawables r (drawableID tg) of
              None \<Rightarrow> Inl TypeError
            | Some drw \<Rightarrow>
                (let bnds = getAABB drw;
                     xTolerance = min 50 (10 + width bnds);
                     yTolerance = min 50 (10 + height bnds)
                 in if absoluteXDistance < xTolerance \<and> absoluteYDistance < yTolerance then
                      (let newX = snap_x d + xDistance * time;
                           newY = snap_y d + yDistance * time
                       in Inr (updateDrawablePosition r (drawableID tg) (newX, newY)))
                    else Inr r))
         else Inr r)"

text \<open>Lines 65 to 72: the ghost effect.\<close>

definition interpolate_effect :: "renderer \<Rightarrow> target \<Rightarrow> snapshot \<Rightarrow> real \<Rightarrow> renderer" where
  "interpolate_effect r tg d time =
     (let ghostChange = ghost (effects tg) - snap_ghost d;
          absoluteGhostChange = \<bar>ghostChange\<bar>
      in if absoluteGhostChange > 0 \<and> absoluteGhostChange < 25 then
           (let newGhost = ghost (effects tg) + ghostChange * time
            in updateDrawableEffect r (drawableID tg) ''ghost'' newGhost)
         else r)"

text \<open>Lines 80 to 91: the direction, and whether it asks for a renderer update.\<close>

definition interpolate_direction :: "real \<Rightarrow> snapshot \<Rightarrow> real \<Rightarrow> real \<times> bool" where
  "interpolate_direction direction d time =
     (if direction \<noteq> snap_direction d then
        (let currentRadians = direction * pi / 180;
             startingRadians = snap_direction d * pi / 180
         in (atan2 (sin currentRadians * time + sin startingRadians)
                   (cos currentRadians * time + cos startingRadians) * 180 / pi, True))
      else (direction, False))"

text \<open>
  Lines 93 to 109: the scale. \<open>scl\<close> is the array just obtained from the target and
  \<open>upd\<close> the flag as the direction part left it; the two assignments are two writes.
\<close>

definition interpolate_scale :: "heap \<Rightarrow> addr \<Rightarrow> snapshot \<Rightarrow> real \<Rightarrow> bool \<Rightarrow> heap \<times> bool" where
  "interpolate_scale h scl d time upd =
     (let startingScale = snap_scale d
      in if read0 h scl \<noteq> read0 h startingScale \<or> read1 h scl \<noteq> read1 h startingScale then
           (if sgn (read0 h scl) = sgn (read0 h startingScale)
               \<and> sgn (read1 h scl) = sgn (read1 h startingScale) then
              (let changeX = read0 h scl - read0 h startingScale;
                   changeY = read1 h scl - read1 h startingScale;
                   absoluteChangeX = \<bar>changeX\<bar>;
                   absoluteChangeY = \<bar>changeY\<bar>
               in if absoluteChangeX < 100 \<and> absoluteChangeY < 100 then
                    (let h1 = write0 h scl (read0 h startingScale + changeX * time);
                         h2 = write1 h1 scl (read1 h1 startingScale + changeY * time)
                     in (h2, True))
                  else (h, upd))
            else (h, upd))
         else (h, upd))"

text \<open>Lines 74 to 114: direction and scale, guarded by the costume comparison.\<close>

definition interpolate_direction_scale ::
  "renderer \<times> heap \<Rightarrow> target \<Rightarrow> snapshot \<Rightarrow> real \<Rightarrow> renderer \<times> heap" where
  "interpolate_direction_scale s tg d time =
     (let (r, h) = s;
          costumeDidChange = (snap_costume d \<noteq> currentCostume tg)
      in if \<not> costumeDidChange then
           (let ((direction, scl), h0) = getRenderedDirectionAndScale tg h;
                (direction', upd) = interpolate_direction direction d time;
                (h', updateDirectionScale) = interpolate_scale h0 scl d time upd
            in if updateDirectionScale then
                 (updateDrawableDirectionScale r (drawableID tg) direction' (arrays h' scl), h')
               else (r, h'))
         else (r, h))"

text \<open>The loop body, lines 37 to 114.\<close>

definition interpolate_target ::
  "renderer \<times> heap \<Rightarrow> target \<Rightarrow> real \<Rightarrow> (renderer \<times> heap) completion" where
  "interpolate_target s tg time =
     (case interpolationData tg of
        None \<Rightarrow> Normal s
      | Some d \<Rightarrow>
          (case interpolate_position (fst s) tg d time of
             Inl e \<Rightarrow> Throw e s
           | Inr r1 \<Rightarrow>
               Normal (interpolate_direction_scale
                         (interpolate_effect r1 tg d time, snd s) tg d time)))"

fun interpolate_loop ::
  "target list \<Rightarrow> real \<Rightarrow> renderer \<times> heap \<Rightarrow> (renderer \<times> heap) completion" where
  "interpolate_loop [] time s = Normal s"
| "interpolate_loop (tg # tgs) time s =
     (case interpolate_target s tg time of
        Throw e s' \<Rightarrow> Throw e s'
      | Normal s' \<Rightarrow> interpolate_loop tgs time s')"

definition interpolate :: "runtime \<Rightarrow> real \<Rightarrow> heap \<Rightarrow> (runtime \<times> heap) completion" where
  "interpolate rt time h =
     (case renderer rt of
        None \<Rightarrow> Normal (rt, h)
      | Some r \<Rightarrow>
          (case interpolate_loop (targets rt) time (r, h) of
             Normal (r', h') \<Rightarrow> Normal (rt\<lparr>renderer := Some r'\<rparr>, h')
           | Throw e (r', h') \<Rightarrow> Throw e (rt\<lparr>renderer := Some r'\<rparr>, h')))"

subsection \<open>Observing an outcome\<close>

text \<open>The state a call ends in, whether it returned or raised, and the error if any.\<close>

fun final :: "'a completion \<Rightarrow> 'a" where
  "final (Normal s) = s"
| "final (Throw e s) = s"

fun raised :: "'a completion \<Rightarrow> error option" where
  "raised (Normal s) = None"
| "raised (Throw e s) = Some e"

text \<open>The three kinds of renderer call, to read one kind off the call log.\<close>

fun is_position :: "call \<Rightarrow> bool" where
  "is_position (UpdateDrawablePosition i p) = True"
| "is_position (UpdateDrawableEffect i n v) = False"
| "is_position (UpdateDrawableDirectionScale i d s) = False"

fun is_effect :: "call \<Rightarrow> bool" where
  "is_effect (UpdateDrawablePosition i p) = False"
| "is_effect (UpdateDrawableEffect i n v) = True"
| "is_effect (UpdateDrawableDirectionScale i d s) = False"

fun is_direction_scale :: "call \<Rightarrow> bool" where
  "is_direction_scale (UpdateDrawablePosition i p) = False"
| "is_direction_scale (UpdateDrawableEffect i n v) = False"
| "is_direction_scale (UpdateDrawableDirectionScale i d s) = True"

definition renderer_calls :: "runtime \<Rightarrow> call list" where
  "renderer_calls rt = (case renderer rt of None \<Rightarrow> [] | Some r \<Rightarrow> calls r)"

text \<open>
  The host calls \<open>interpolate\<close> once per render pass; \<open>interpolate_passes\<close> is a run
  of such calls with the given times, each continuing from the state the previous one
  ended in.
\<close>

fun interpolate_passes :: "runtime \<times> heap \<Rightarrow> real list \<Rightarrow> runtime \<times> heap" where
  "interpolate_passes s [] = s"
| "interpolate_passes s (time # rest) =
     interpolate_passes (final (interpolate (fst s) time (snd s))) rest"

text \<open>Every snapshot refers to a scale array that has been created.\<close>

definition snapshots_allocated :: "target list \<Rightarrow> heap \<Rightarrow> bool" where
  "snapshots_allocated tgs h =
     list_all (\<lambda>tg. case interpolationData tg of None \<Rightarrow> True
                     | Some d \<Rightarrow> snap_scale d < fresh h) tgs"

text \<open>A snapshot with its scale array read from the store.\<close>

definition snapshot_values ::
  "heap \<Rightarrow> snapshot \<Rightarrow> real \<times> real \<times> real \<times> (real \<times> real) \<times> nat \<times> real" where
  "snapshot_values h d =
     (snap_x d, snap_y d, snap_direction d, arrays h (snap_scale d), snap_costume d,
      snap_ghost d)"

text \<open>
  What the snapshot of a target should hold after capture, in the words of the spec:
  for a visible target that is not the stage, its x, y, rendered direction, rendered
  scale, costume and ghost value; for any other target, nothing.
\<close>

definition expected_snapshot ::
  "target \<Rightarrow> (real \<times> real \<times> real \<times> (real \<times> real) \<times> nat \<times> real) option" where
  "expected_snapshot tg =
     (if visible tg \<and> \<not> isStage tg
      then Some (target_x tg, target_y tg, renderedDirection tg, renderedScale tg,
                 currentCostume tg, ghost (effects tg))
      else None)"

text \<open>What the snapshot of a target does hold, its scale array read from the store.\<close>

definition stored_snapshot ::
  "heap \<Rightarrow> target \<Rightarrow> (real \<times> real \<times> real \<times> (real \<times> real) \<times> nat \<times> real) option" where
  "stored_snapshot h tg = map_option (snapshot_values h) (interpolationData tg)"

text \<open>A target without its snapshot field: the state the simulation owns.\<close>

definition logical_state :: "target \<Rightarrow> target" where
  "logical_state tg = tg\<lparr>interpolationData := None\<rparr>"

text \<open>
  The store \<open>h'\<close> extends \<open>h\<close>: arrays may have been created, and every array that
  existed in \<open>h\<close> is unchanged.
\<close>

definition extends :: "heap \<Rightarrow> heap \<Rightarrow> bool" where
  "extends h h' = (fresh h \<le> fresh h' \<and> (\<forall>a. a < fresh h \<longrightarrow> arrays h' a = arrays h a))"

text \<open>
  The target makes line 50 look its drawable up: it has a snapshot and has moved by
  more than 0.1 on some axis.
\<close>

definition needs_drawable :: "target \<Rightarrow> bool" where
  "needs_drawable tg =
     (case interpolationData tg of
        None \<Rightarrow> False
      | Some d \<Rightarrow> \<bar>target_x tg - snap_x d\<bar> > 1 / 10 \<or> \<bar>target_y tg - snap_y d\<bar> > 1 / 10)"

text \<open>
  The targets that a call of \<open>interpolate\<close> works through, given the drawable table:
  all of them up to the first that needs a drawable the table does not have, where the
  call ends.
\<close>

definition reached :: "(nat \<rightharpoonup> drawable) \<Rightarrow> target list \<Rightarrow> target list" where
  "reached tbl tgs = takeWhile (\<lambda>tg. \<not> (needs_drawable tg \<and> tbl (drawableID tg) = None)) tgs"

text \<open>
  The position rule in the words of the spec, as the calls one target gives rise to: none
  without a snapshot; none if both displacements are at most 0.1; otherwise, with the
  tolerances \<open>min 50 (10 + width)\<close> and \<open>min 50 (10 + height)\<close> of the bounding box, none
  if the displacement on either axis meets or exceeds its tolerance, and else one call
  with \<open>snapshot + displacement * time\<close>.
\<close>

definition position_rule :: "(nat \<rightharpoonup> drawable) \<Rightarrow> real \<Rightarrow> target \<Rightarrow> call list" where
  "position_rule tbl time tg =
     (case interpolationData tg of
        None \<Rightarrow> []
      | Some d \<Rightarrow>
          if \<bar>target_x tg - snap_x d\<bar> \<le> 1 / 10 \<and> \<bar>target_y tg - snap_y d\<bar> \<le> 1 / 10 then []
          else (case tbl (drawableID tg) of
                  None \<Rightarrow> []
                | Some drw \<Rightarrow>
                    if \<bar>target_x tg - snap_x d\<bar> \<ge> min 50 (10 + width (getAABB drw))
                       \<or> \<bar>target_y tg - snap_y d\<bar> \<ge> min 50 (10 + height (getAABB drw))
                    then []
                    else [UpdateDrawablePosition (drawableID tg)
                            (snap_x d + (target_x tg - snap_x d) * time,
                             snap_y d + (target_y tg - snap_y d) * time)]))"


subsection \<open>An example scene\<close>

text \<open>
  One sprite with drawable 7, whose bounding box is 40 by 40, at rest: its snapshot
  equals its current state, and the snapshot's scale array is at address 0.
\<close>

definition heap0 :: heap where
  "heap0 = \<lparr>arrays = (\<lambda>a. if a = 0 then (100, 100) else (0, 0)), fresh = 1\<rparr>"

definition snapshot0 :: snapshot where
  "snapshot0 = \<lparr>snap_x = 0, snap_y = 0, snap_direction = 90, snap_scale = 0,
                snap_costume = 0, snap_ghost = 0\<rparr>"

definition sprite0 :: target where
  "sprite0 = \<lparr>target_x = 0, target_y = 0, effects = \<lparr>ghost = 0\<rparr>, currentCostume = 0,
              visible = True, isStage = False, drawableID = 7, renderedDirection = 90,
              renderedScale = (100, 100), interpolationData = Some snapshot0\<rparr>"

definition renderer0 :: renderer where
  "renderer0 = \<lparr>allDrawables = [7 \<mapsto> \<lparr>getAABB = \<lparr>width = 40, height = 40\<rparr>\<rparr>], calls = []\<rparr>"

definition scene :: "target \<Rightarrow> runtime" where
  "scene tg = \<lparr>targets = [tg], renderer = Some renderer0\<rparr>"

section \<open>Properties\<close>

subsection \<open>Each part of the loop body and the call log\<close>

lemma effect_calls:
  "calls (interpolate_effect r tg d time) =
     calls r @ (if 0 < \<bar>ghost (effects tg) - snap_ghost d\<bar>
                   \<and> \<bar>ghost (effects tg) - snap_ghost d\<bar> < 25
                then [UpdateDrawableEffect (drawableID tg) ''ghost''
                        (ghost (effects tg) + (ghost (effects tg) - snap_ghost d) * time)]
                else [])"
  by (simp add: interpolate_effect_def updateDrawableEffect_def Let_def)

lemma effect_allDrawables [simp]:
  "allDrawables (interpolate_effect r tg d time) = allDrawables r"
  by (simp add: interpolate_effect_def updateDrawableEffect_def Let_def)

lemma position_filter_effect:
  "interpolate_position r tg d time = Inr r' \<Longrightarrow>
     filter is_effect (calls r') = filter is_effect (calls r)"
  by (auto simp: interpolate_position_def updateDrawablePosition_def Let_def
           split: if_splits option.splits)

lemma position_filter_direction_scale:
  "interpolate_position r tg d time = Inr r' \<Longrightarrow>
     filter is_direction_scale (calls r') = filter is_direction_scale (calls r)"
  by (auto simp: interpolate_position_def updateDrawablePosition_def Let_def
           split: if_splits option.splits)

lemma position_allDrawables:
  "interpolate_position r tg d time = Inr r' \<Longrightarrow> allDrawables r' = allDrawables r"
  by (auto simp: interpolate_position_def updateDrawablePosition_def Let_def
           split: if_splits option.splits)

lemma direction_scale_filter_position:
  "filter is_position (calls (fst (interpolate_direction_scale (r, h) tg d time))) =
     filter is_position (calls r)"
  by (simp add: interpolate_direction_scale_def updateDrawableDirectionScale_def Let_def
           split: prod.splits)

lemma direction_scale_filter_effect:
  "filter is_effect (calls (fst (interpolate_direction_scale (r, h) tg d time))) =
     filter is_effect (calls r)"
  by (simp add: interpolate_direction_scale_def updateDrawableDirectionScale_def Let_def
           split: prod.splits)

lemma direction_scale_allDrawables:
  "allDrawables (fst (interpolate_direction_scale (r, h) tg d time)) = allDrawables r"
  by (simp add: interpolate_direction_scale_def updateDrawableDirectionScale_def Let_def
           split: prod.splits)

text \<open>
  The loop runs the body on each target in turn, from the state the previous targets
  left: when \<open>interpolate\<close> returns, every target has been through the body, and the
  body returned for it.
\<close>

lemma loop_append:
  "interpolate_loop (tgs1 @ tgs2) time s =
     (case interpolate_loop tgs1 time s of
        Throw e s' \<Rightarrow> Throw e s'
      | Normal s' \<Rightarrow> interpolate_loop tgs2 time s')"
  by (induction tgs1 arbitrary: s) (simp_all split: completion.splits)

lemma loop_runs_body_on_each_target:
  assumes "interpolate_loop (tgs1 @ tg # tgs2) time s = Normal s'"
  shows "\<exists>s1 s2. interpolate_loop tgs1 time s = Normal s1
                 \<and> interpolate_target s1 tg time = Normal s2
                 \<and> interpolate_loop tgs2 time s2 = Normal s'"
  using assms by (auto simp: loop_append split: completion.splits)

text \<open>The definitions that a run on the example scene unfolds.\<close>

lemmas scene_defs =
  scene_def sprite0_def snapshot0_def renderer0_def heap0_def renderer_calls_def

lemmas run_defs =
  interpolate_def interpolate_target_def interpolate_position_def interpolate_effect_def
  interpolate_direction_scale_def interpolate_direction_def interpolate_scale_def
  getRenderedDirectionAndScale_def alloc_def read0_def read1_def write0_def write1_def
  updateDrawablePosition_def updateDrawableEffect_def updateDrawableDirectionScale_def
  Let_def

subsection \<open>The ghost effect\<close>

text \<open>
  C1. The claim: when the ghost value changed by \<open>d\<close> with \<open>0 < |d| < 25\<close>, the value
  pushed is \<open>snapshot.ghost + d * t\<close>, so a change of 10 at \<open>t = 0.5\<close> pushes
  \<open>snapshot.ghost + 5\<close>. Line 70 starts from \<open>target.effects.ghost\<close> instead of
  \<open>interpolationData.ghost\<close>: for the example sprite with snapshot ghost 0 and current
  ghost 10, the one call made at \<open>t = 0.5\<close> pushes 15, not 5.
\<close>

theorem C1_ghost_pushes_current_plus_change:
  "renderer_calls (fst (final (interpolate
       (scene (sprite0\<lparr>effects := \<lparr>ghost = 10\<rparr>\<rparr>)) (1 / 2) heap0)))
     = [UpdateDrawableEffect 7 ''ghost'' 15]"
  by (simp add: scene_defs run_defs)

lemma normal_final: "raised c = None \<Longrightarrow> c = Normal (final c)"
  by (cases c) simp_all

subsection \<open>Direction range\<close>

lemma atan2_range: "- pi < atan2 y x \<and> atan2 y x \<le> pi"
proof -
  have b: "- (pi / 2) < arctan (y / x)" "arctan (y / x) < pi / 2"
    by (rule arctan_lbound, rule arctan_ubound)
  have p: "0 < pi" by simp
  show ?thesis
  proof (cases "0 < x")
    case True
    then have "atan2 y x = arctan (y / x)" by (simp add: atan2_def)
    with b p show ?thesis by linarith
  next
    case nx: False
    show ?thesis
    proof (cases "x < 0")
      case neg: True
      show ?thesis
      proof (cases "0 \<le> y")
        case True
        with neg have "y / x \<le> 0" by (simp add: divide_nonneg_neg)
        then have "arctan (y / x) \<le> 0" by simp
        moreover have "atan2 y x = arctan (y / x) + pi"
          using neg True by (simp add: atan2_def)
        ultimately show ?thesis using b p by linarith
      next
        case False
        with neg have "0 < y / x" by (simp add: divide_neg_neg)
        then have "0 < arctan (y / x)" by simp
        moreover have "atan2 y x = arctan (y / x) - pi"
          using neg False by (simp add: atan2_def)
        ultimately show ?thesis using b p by linarith
      qed
    next
      case False
      with nx have "x = 0" by simp
      then have "atan2 y x = pi / 2 \<or> atan2 y x = - (pi / 2) \<or> atan2 y x = 0"
        by (simp add: atan2_def)
      with p show ?thesis by linarith
    qed
  qed
qed

lemma blended_direction_range:
  "direction \<noteq> snap_direction d \<Longrightarrow>
     - 180 \<le> fst (interpolate_direction direction d time)
     \<and> fst (interpolate_direction direction d time) \<le> 180"
proof -
  assume ne: "direction \<noteq> snap_direction d"
  define a where "a = atan2 (sin (direction * pi / 180) * time + sin (snap_direction d * pi / 180))
                            (cos (direction * pi / 180) * time + cos (snap_direction d * pi / 180))"
  have r: "- pi < a" "a \<le> pi" using atan2_range by (simp_all add: a_def)
  have e: "fst (interpolate_direction direction d time) = a * 180 / pi"
    using ne by (simp add: interpolate_direction_def Let_def a_def)
  have p: "0 < pi" by simp
  have "- 180 \<le> a * 180 / pi"
    using r p by (simp add: pos_le_divide_eq)
  moreover have "a * 180 / pi \<le> 180"
    using r p by (simp add: pos_divide_le_eq)
  ultimately show ?thesis by (simp add: e)
qed

lemma scale_keeps_flag:
  "upd \<Longrightarrow> snd (interpolate_scale h scl d time upd)"
  by (simp add: interpolate_scale_def Let_def)

text \<open>
  C10. Whenever the loop body blends the direction (the costume is unchanged and the
  rendered direction differs from the snapshot's), the body makes exactly one
  direction-and-scale call for the target, and the direction it passes lies between
  -180 and 180 degrees, whatever the two input directions and the time are.
\<close>

theorem C10_blended_direction_range:
  assumes snap: "interpolationData tg = Some d"
      and same: "snap_costume d = currentCostume tg"
      and turn: "renderedDirection tg \<noteq> snap_direction d"
      and fin: "interpolate_target (r, h) tg time = Normal (r', h')"
  shows "\<exists>s. filter is_direction_scale (calls r') =
               filter is_direction_scale (calls r) @
                 [UpdateDrawableDirectionScale (drawableID tg)
                    (fst (interpolate_direction (renderedDirection tg) d time)) s]
             \<and> - 180 \<le> fst (interpolate_direction (renderedDirection tg) d time)
             \<and> fst (interpolate_direction (renderedDirection tg) d time) \<le> 180"
proof -
  from snap fin obtain r1 where
    pos: "interpolate_position r tg d time = Inr r1" and
    res: "interpolate_direction_scale (interpolate_effect r1 tg d time, h) tg d time = (r', h')"
    by (auto simp: interpolate_target_def split: sum.splits)
  have flt: "filter is_direction_scale (calls (interpolate_effect r1 tg d time)) =
               filter is_direction_scale (calls r)"
    using position_filter_direction_scale [OF pos] by (simp add: effect_calls)
  have flag: "snd (interpolate_direction (renderedDirection tg) d time)"
    using turn by (simp add: interpolate_direction_def Let_def)
  obtain h0 scl where g: "getRenderedDirectionAndScale tg h = ((renderedDirection tg, scl), h0)"
    by (simp add: getRenderedDirectionAndScale_def alloc_def)
  obtain h1 u where sc: "interpolate_scale h0 scl d time True = (h1, u)"
    by (cases "interpolate_scale h0 scl d time True")
  have u: "u" using scale_keeps_flag [of True h0 scl d time] sc by simp
  obtain dir where dr: "interpolate_direction (renderedDirection tg) d time = (dir, True)"
    using flag by (cases "interpolate_direction (renderedDirection tg) d time") simp
  have "r' = updateDrawableDirectionScale (interpolate_effect r1 tg d time) (drawableID tg)
               dir (arrays h1 scl)"
    using res same g sc u dr
    by (auto simp: interpolate_direction_scale_def Let_def)
  then have "filter is_direction_scale (calls r') =
               filter is_direction_scale (calls r) @
                 [UpdateDrawableDirectionScale (drawableID tg) dir (arrays h1 scl)]"
    by (simp add: updateDrawableDirectionScale_def flt)
  moreover have "dir = fst (interpolate_direction (renderedDirection tg) d time)"
    by (simp add: dr)
  ultimately show ?thesis
    using blended_direction_range [OF turn, of time] by blast
qed

theorem C10_blended_direction_range_witness:
  "- 180 \<le> fst (interpolate_direction 0 snapshot0 (1 / 2))
   \<and> fst (interpolate_direction 0 snapshot0 (1 / 2)) \<le> 180
   \<and> (\<exists>s. filter is_direction_scale (calls (fst (final (interpolate_target
               (renderer0, heap0) (sprite0\<lparr>renderedDirection := 0\<rparr>) (1 / 2))))) =
            [UpdateDrawableDirectionScale 7 (fst (interpolate_direction 0 snapshot0 (1 / 2))) s])"
proof -
  let ?tg = "sprite0\<lparr>renderedDirection := 0\<rparr>"
  let ?c = "interpolate_target (renderer0, heap0) ?tg (1 / 2)"
  have snap: "interpolationData ?tg = Some snapshot0" by (simp add: sprite0_def)
  have same: "snap_costume snapshot0 = currentCostume ?tg"
    by (simp add: sprite0_def snapshot0_def)
  have turn: "renderedDirection ?tg \<noteq> snap_direction snapshot0"
    by (simp add: sprite0_def snapshot0_def)
  have "raised ?c = None"
    by (simp add: interpolate_target_def interpolate_position_def sprite0_def snapshot0_def)
  then have "?c = Normal (final ?c)" by (rule normal_final)
  then have fin: "?c = Normal (fst (final ?c), snd (final ?c))" by simp
  show ?thesis
    using C10_blended_direction_range [OF snap same turn fin]
    by (simp add: sprite0_def renderer0_def)
qed

subsection \<open>Position\<close>

lemma target_position_calls:
  "interpolationData tg = Some d \<Longrightarrow>
   filter is_position (calls (fst (final (interpolate_target (r, h) tg time)))) =
     (case interpolate_position r tg d time of
        Inl e \<Rightarrow> filter is_position (calls r)
      | Inr r1 \<Rightarrow> filter is_position (calls r1))"
  by (simp add: interpolate_target_def direction_scale_filter_position effect_calls
           split: sum.splits)

subsection \<open>Costume guard\<close>

text \<open>
  C8. For a target whose current costume differs from the snapshot's, the loop body adds
  no direction-and-scale call to the log, whatever the rendered direction and scale
  are; it does not even ask the target for them, so the store is left as it was.
\<close>

theorem C8_costume_change_guard:
  assumes "interpolationData tg = Some d"
      and "snap_costume d \<noteq> currentCostume tg"
  shows "filter is_direction_scale (calls (fst (final (interpolate_target (r, h) tg time)))) =
           filter is_direction_scale (calls r)
         \<and> snd (final (interpolate_target (r, h) tg time)) = h"
  using assms
  by (auto simp: interpolate_target_def interpolate_direction_scale_def effect_calls
           dest: position_filter_direction_scale split: sum.splits)

theorem C8_costume_change_guard_witness:
  "filter is_direction_scale (calls (fst (final (interpolate_target (renderer0, heap0)
       (sprite0\<lparr>currentCostume := 1, renderedDirection := 0, renderedScale := (50, 20)\<rparr>)
       (1 / 2))))) = []
   \<and> snd (final (interpolate_target (renderer0, heap0)
       (sprite0\<lparr>currentCostume := 1, renderedDirection := 0, renderedScale := (50, 20)\<rparr>)
       (1 / 2))) = heap0"
proof -
  let ?tg = "sprite0\<lparr>currentCostume := 1, renderedDirection := 0, renderedScale := (50, 20)\<rparr>"
  have a: "interpolationData ?tg = Some snapshot0" by (simp add: sprite0_def)
  have b: "snap_costume snapshot0 \<noteq> currentCostume ?tg"
    by (simp add: sprite0_def snapshot0_def)
  show ?thesis
    using C8_costume_change_guard [OF a b, of renderer0 heap0 "1 / 2"]
    by (simp add: renderer0_def)
qed

subsection \<open>Scale\<close>

lemma rendered_fresh:
  "getRenderedDirectionAndScale tg h =
     ((renderedDirection tg, fresh h),
      \<lparr>arrays = (arrays h)(fresh h := renderedScale tg), fresh = Suc (fresh h)\<rparr>)"
  by (simp add: getRenderedDirectionAndScale_def alloc_def)



subsection \<open>The ends of the tick and the circular blend\<close>

lemma blend_90_0_at_0: "fst (interpolate_direction 0 snapshot0 0) = 90"
  by (simp add: interpolate_direction_def snapshot0_def atan2_def Let_def)

lemma blend_90_0_at_1: "fst (interpolate_direction 0 snapshot0 1) = 45"
  by (simp add: interpolate_direction_def snapshot0_def atan2_def Let_def arctan_one)

lemma blend_350_10_at_half:
  "fst (interpolate_direction 10 (snapshot0\<lparr>snap_direction := 350\<rparr>) (1 / 2)) =
     - arctan (tan (pi / 18) / 3) * 180 / pi"
proof -
  have a: "10 * pi / 180 = pi / 18" by simp
  have b: "350 * pi / 180 = 2 * pi - pi / 18" by simp
  have s: "sin (350 * pi / 180) = - sin (pi / 18)"
    by (simp only: b sin_2pi_minus)
  have c: "cos (350 * pi / 180) = cos (pi / 18)"
    by (simp only: b cos_2pi_minus)
  have cp: "0 < cos (pi / 18)" by (rule cos_gt_zero_pi) simp_all
  define Y where "Y = sin (pi / 18) * (1 / 2) + - sin (pi / 18)"
  define X where "X = cos (pi / 18) * (1 / 2) + cos (pi / 18)"
  have xp: "0 < X" using cp by (simp add: X_def)
  have q: "Y / X = - (tan (pi / 18) / 3)"
    using cp by (simp add: X_def Y_def tan_def field_simps)
  have "fst (interpolate_direction 10 (snapshot0\<lparr>snap_direction := 350\<rparr>) (1 / 2)) =
          atan2 (sin (10 * pi / 180) * (1 / 2) + sin (350 * pi / 180))
                (cos (10 * pi / 180) * (1 / 2) + cos (350 * pi / 180)) * 180 / pi"
    by (simp add: interpolate_direction_def snapshot0_def Let_def)
  also have "\<dots> = atan2 Y X * 180 / pi"
    by (simp only: a s c X_def Y_def)
  also have "atan2 Y X = arctan (Y / X)" using xp by (simp add: atan2_def)
  also have "arctan (Y / X) = - arctan (tan (pi / 18) / 3)" by (simp only: q arctan_minus)
  finally show ?thesis .
qed

lemma blend_350_10_bounds:
  "- 10 < - arctan (tan (pi / 18) / 3) * 180 / pi \<and> - arctan (tan (pi / 18) / 3) * 180 / pi < 0"
proof -
  have tp: "0 < tan (pi / 18)" by (rule tan_gt_zero) simp_all
  then have "tan (pi / 18) / 3 < tan (pi / 18)" by simp
  then have "arctan (tan (pi / 18) / 3) < arctan (tan (pi / 18))"
    by (simp only: arctan_less_iff)
  also have "arctan (tan (pi / 18)) = pi / 18" by (rule arctan_tan) simp_all
  finally have up: "arctan (tan (pi / 18) / 3) < pi / 18" .
  have lo: "0 < arctan (tan (pi / 18) / 3)" using tp by simp
  have p: "0 < pi" by simp
  have "arctan (tan (pi / 18) / 3) * 180 / pi < 10"
    using up p by (simp add: pos_divide_less_eq)
  moreover have "0 < arctan (tan (pi / 18) / 3) * 180 / pi"
    using lo p by simp
  ultimately show ?thesis by simp
qed


lemma direction_flag:
  "snd (interpolate_direction direction d time) = (direction \<noteq> snap_direction d)"
  by (simp add: interpolate_direction_def Let_def)

lemma snapshot0_fields:
  "snap_x snapshot0 = 0" "snap_y snapshot0 = 0" "snap_direction snapshot0 = 90"
  "snap_scale snapshot0 = 0" "snap_costume snapshot0 = 0" "snap_ghost snapshot0 = 0"
  by (simp_all add: snapshot0_def)

lemmas body_defs =
  interpolate_def interpolate_target_def interpolate_position_def interpolate_effect_def
  interpolate_direction_scale_def interpolate_scale_def
  getRenderedDirectionAndScale_def alloc_def read0_def read1_def write0_def write1_def
  updateDrawablePosition_def updateDrawableEffect_def updateDrawableDirectionScale_def
  Let_def split_beta direction_flag

lemmas scene_fields =
  scene_def sprite0_def renderer0_def heap0_def renderer_calls_def snapshot0_fields

text \<open>
  C4. The claim: with snapshot direction 350 and current direction 10, the direction
  pushed at \<open>t = 0.5\<close> is 0 degrees or an equivalent angle. Lines 85 to 88 weight the
  current direction by \<open>time\<close> and the snapshot's by 1, not by \<open>1 - time\<close>: the one
  call made pushes \<open>- arctan (tan 10\<degree> / 3)\<close> in degrees, about -3.36, which lies
  strictly between -10 and 0 and so is neither 0 (nor a multiple of 360) nor 180.
\<close>

theorem C4_blend_350_10_at_half:
  "renderer_calls (fst (final (interpolate
       (scene (sprite0\<lparr>renderedDirection := 10,
                        interpolationData := Some (snapshot0\<lparr>snap_direction := 350\<rparr>)\<rparr>))
       (1 / 2) heap0)))
     = [UpdateDrawableDirectionScale 7 (- arctan (tan (pi / 18) / 3) * 180 / pi) (100, 100)]
   \<and> - 10 < - arctan (tan (pi / 18) / 3) * 180 / pi
   \<and> - arctan (tan (pi / 18) / 3) * 180 / pi < 0"
proof -
  have "renderer_calls (fst (final (interpolate
       (scene (sprite0\<lparr>renderedDirection := 10,
                        interpolationData := Some (snapshot0\<lparr>snap_direction := 350\<rparr>)\<rparr>))
       (1 / 2) heap0)))
     = [UpdateDrawableDirectionScale 7
          (fst (interpolate_direction 10 (snapshot0\<lparr>snap_direction := 350\<rparr>) (1 / 2)))
          (100, 100)]"
    by (simp add: scene_fields body_defs)
  then show ?thesis
    using blend_350_10_bounds by (simp only: blend_350_10_at_half)
qed

text \<open>
  C3. The claim: at \<open>t = 0\<close> the values pushed are the snapshot's and at \<open>t = 1\<close> the
  current ones. For the example sprite with snapshot ghost 0 and direction 90, and
  current ghost 10 and direction 0: at \<open>t = 0\<close> the ghost pushed is 10 (the current
  value, not the snapshot's 0) while the direction pushed is the snapshot's 90; at
  \<open>t = 1\<close> the ghost pushed is 20 (not the current 10) and the direction pushed is 45
  (the bisector, not the current 0).
\<close>

theorem C3_boundary_values_pushed:
  "renderer_calls (fst (final (interpolate
       (scene (sprite0\<lparr>effects := \<lparr>ghost = 10\<rparr>, renderedDirection := 0\<rparr>)) 0 heap0)))
     = [UpdateDrawableEffect 7 ''ghost'' 10, UpdateDrawableDirectionScale 7 90 (100, 100)]
   \<and> renderer_calls (fst (final (interpolate
       (scene (sprite0\<lparr>effects := \<lparr>ghost = 10\<rparr>, renderedDirection := 0\<rparr>)) 1 heap0)))
     = [UpdateDrawableEffect 7 ''ghost'' 20, UpdateDrawableDirectionScale 7 45 (100, 100)]"
proof -
  have "renderer_calls (fst (final (interpolate
       (scene (sprite0\<lparr>effects := \<lparr>ghost = 10\<rparr>, renderedDirection := 0\<rparr>)) 0 heap0)))
     = [UpdateDrawableEffect 7 ''ghost'' 10,
        UpdateDrawableDirectionScale 7 (fst (interpolate_direction 0 snapshot0 0)) (100, 100)]"
    by (simp add: scene_fields body_defs)
  moreover have "renderer_calls (fst (final (interpolate
       (scene (sprite0\<lparr>effects := \<lparr>ghost = 10\<rparr>, renderedDirection := 0\<rparr>)) 1 heap0)))
     = [UpdateDrawableEffect 7 ''ghost'' 20,
        UpdateDrawableDirectionScale 7 (fst (interpolate_direction 0 snapshot0 1)) (100, 100)]"
    by (simp add: scene_fields body_defs)
  ultimately show ?thesis
    by (simp only: blend_90_0_at_0 blend_90_0_at_1)
qed

subsection \<open>What interpolate leaves alone\<close>

lemma extends_refl [simp]: "extends h h"
  by (simp add: extends_def)

lemma extends_trans: "extends h h1 \<Longrightarrow> extends h1 h2 \<Longrightarrow> extends h h2"
  by (auto simp: extends_def)

lemma scale_frame:
  "fresh (fst (interpolate_scale h scl d time upd)) = fresh h
   \<and> (\<forall>a. a \<noteq> scl \<longrightarrow> arrays (fst (interpolate_scale h scl d time upd)) a = arrays h a)"
  by (simp add: interpolate_scale_def Let_def write0_def write1_def)

lemma direction_scale_heap:
  "snd (interpolate_direction_scale (r, h) tg d time) =
     (if snap_costume d = currentCostume tg
      then fst (interpolate_scale
                  \<lparr>arrays = (arrays h)(fresh h := renderedScale tg), fresh = Suc (fresh h)\<rparr>
                  (fresh h) d time
                  (snd (interpolate_direction (renderedDirection tg) d time)))
      else h)"
  by (simp add: interpolate_direction_scale_def rendered_fresh Let_def split_beta)

lemma direction_scale_extends:
  "extends h (snd (interpolate_direction_scale (r, h) tg d time))"
proof (cases "snap_costume d = currentCostume tg")
  case True
  let ?h0 = "\<lparr>arrays = (arrays h)(fresh h := renderedScale tg), fresh = Suc (fresh h)\<rparr>"
  let ?u = "snd (interpolate_direction (renderedDirection tg) d time)"
  let ?h1 = "fst (interpolate_scale ?h0 (fresh h) d time ?u)"
  have f: "fresh ?h1 = fresh ?h0"
    and a: "\<forall>a. a \<noteq> fresh h \<longrightarrow> arrays ?h1 a = arrays ?h0 a"
    using scale_frame [of ?h0 "fresh h" d time ?u] by blast+
  have "extends h ?h1"
    unfolding extends_def
  proof (intro conjI allI impI)
    show "fresh h \<le> fresh ?h1" by (simp add: f)
  next
    fix b assume "b < fresh h"
    then have "b \<noteq> fresh h" by simp
    with a have "arrays ?h1 b = arrays ?h0 b" by blast
    also have "\<dots> = arrays h b" using \<open>b \<noteq> fresh h\<close> by simp
    finally show "arrays ?h1 b = arrays h b" .
  qed
  then show ?thesis using True by (simp add: direction_scale_heap)
next
  case False
  then show ?thesis by (simp add: direction_scale_heap)
qed


lemma target_extends: "extends h (snd (final (interpolate_target (r, h) tg time)))"
  by (simp add: interpolate_target_def direction_scale_extends
           split: option.splits sum.splits)

lemma loop_extends: "extends (snd s) (snd (final (interpolate_loop tgs time s)))"
proof (induction tgs arbitrary: s)
  case Nil
  then show ?case by simp
next
  case (Cons tg tgs)
  obtain r h where s: "s = (r, h)" by (cases s)
  show ?case
  proof (cases "interpolate_target s tg time")
    case (Normal s1)
    have "extends h (snd s1)" using target_extends [of h r tg time] Normal s by simp
    moreover have "extends (snd s1) (snd (final (interpolate_loop tgs time s1)))"
      by (rule Cons.IH)
    ultimately have "extends h (snd (final (interpolate_loop tgs time s1)))"
      by (rule extends_trans)
    then show ?thesis using Normal s by simp
  next
    case (Throw e s1)
    then show ?thesis using target_extends [of h r tg time] s by simp
  qed
qed


lemma interpolate_final:
  "renderer rt = Some r \<Longrightarrow>
     final (interpolate rt time h) =
       (rt\<lparr>renderer := Some (fst (final (interpolate_loop (targets rt) time (r, h))))\<rparr>,
        snd (final (interpolate_loop (targets rt) time (r, h))))"
  by (cases "interpolate_loop (targets rt) time (r, h)")
     (simp_all add: interpolate_def split_beta)

lemma interpolate_frame:
  "targets (fst (final (interpolate rt time h))) = targets rt
   \<and> extends h (snd (final (interpolate rt time h)))"
proof (cases "renderer rt")
  case None
  then show ?thesis by (simp add: interpolate_def)
next
  case (Some r)
  have "extends h (snd (final (interpolate_loop (targets rt) time (r, h))))"
    using loop_extends [of "(r, h)"] by simp
  then show ?thesis by (simp add: interpolate_final [OF Some])
qed


lemma passes_frame:
  "targets (fst (interpolate_passes s ts)) = targets (fst s)
   \<and> extends (snd s) (snd (interpolate_passes s ts))"
proof (induction ts arbitrary: s)
  case Nil
  then show ?case by simp
next
  case (Cons time ts)
  let ?s1 = "final (interpolate (fst s) time (snd s))"
  have a: "targets (fst ?s1) = targets (fst s)" "extends (snd s) (snd ?s1)"
    using interpolate_frame [of "fst s" time "snd s"] by simp_all
  have b: "targets (fst (interpolate_passes ?s1 ts)) = targets (fst ?s1)"
          "extends (snd ?s1) (snd (interpolate_passes ?s1 ts))"
    using Cons.IH [of ?s1] by simp_all
  show ?case using a(1) b(1) extends_trans [OF a(2) b(2)] by simp
qed

lemma stored_snapshot_extends:
  assumes al: "snapshots_allocated tgs h" and ex: "extends h h'"
  shows "map (stored_snapshot h') tgs = map (stored_snapshot h) tgs"
proof (rule map_cong [OF refl])
  fix tg assume mem: "tg \<in> set tgs"
  show "stored_snapshot h' tg = stored_snapshot h tg"
  proof (cases "interpolationData tg")
    case None
    then show ?thesis by (simp add: stored_snapshot_def)
  next
    case (Some d)
    from al mem Some have "snap_scale d < fresh h"
      by (auto simp: snapshots_allocated_def list_all_iff)
    with ex have "arrays h' (snap_scale d) = arrays h (snap_scale d)"
      by (simp add: extends_def)
    then show ?thesis by (simp add: stored_snapshot_def snapshot_values_def Some)
  qed
qed

text \<open>
  C5. Any run of calls of \<open>interpolate\<close>, with any times and whether the calls return
  or raise, leaves the list of targets exactly as it was (so every target's x, y,
  effects, costume and snapshot field), and leaves every snapshot's content as it was,
  the scale array included; indeed every array that existed before is unchanged. The
  in-place writes of lines 104 and 105 go to the array that the same iteration obtained
  from the target. The premise is that each snapshot's scale array exists, which
  \<open>setupInitialState\<close> establishes.
\<close>

theorem C5_interpolate_changes_no_target:
  assumes "snapshots_allocated (targets rt) h"
  shows "targets (fst (interpolate_passes (rt, h) ts)) = targets rt
         \<and> map (stored_snapshot (snd (interpolate_passes (rt, h) ts))) (targets rt) =
             map (stored_snapshot h) (targets rt)
         \<and> extends h (snd (interpolate_passes (rt, h) ts))"
proof -
  have ex: "extends h (snd (interpolate_passes (rt, h) ts))"
    using passes_frame [of "(rt, h)" ts] by simp
  then have "map (stored_snapshot (snd (interpolate_passes (rt, h) ts))) (targets rt) =
               map (stored_snapshot h) (targets rt)"
    by (rule stored_snapshot_extends [OF assms])
  moreover have "targets (fst (interpolate_passes (rt, h) ts)) = targets rt"
    using passes_frame [of "(rt, h)" ts] by simp
  ultimately show ?thesis using ex by blast
qed


theorem C5_interpolate_changes_no_target_witness:
  "targets (fst (interpolate_passes
       (scene (sprite0\<lparr>target_x := 5, renderedScale := (120, 120)\<rparr>), heap0) [0, 1 / 2, 1])) =
     [sprite0\<lparr>target_x := 5, renderedScale := (120, 120)\<rparr>]
   \<and> map (stored_snapshot (snd (interpolate_passes
       (scene (sprite0\<lparr>target_x := 5, renderedScale := (120, 120)\<rparr>), heap0) [0, 1 / 2, 1])))
       [sprite0\<lparr>target_x := 5, renderedScale := (120, 120)\<rparr>] =
     [Some (0, 0, 90, (100, 100), 0, 0)]"
proof -
  let ?tg = "sprite0\<lparr>target_x := 5, renderedScale := (120, 120)\<rparr>"
  have al: "snapshots_allocated (targets (scene ?tg)) heap0"
    by (simp add: snapshots_allocated_def scene_def sprite0_def snapshot0_def heap0_def)
  have st: "stored_snapshot heap0 ?tg = Some (0, 0, 90, (100, 100), 0, 0)"
    by (simp add: stored_snapshot_def snapshot_values_def sprite0_def snapshot0_def heap0_def)
  show ?thesis
    using C5_interpolate_changes_no_target [OF al, of "[0, 1 / 2, 1]"] st
    by (simp add: scene_def)
qed

subsection \<open>Capture\<close>

lemma setup_target_result:
  "setup_target tg h =
     (if visible tg \<and> \<not> isStage tg
      then (tg\<lparr>interpolationData := Some
               \<lparr>snap_x = target_x tg, snap_y = target_y tg,
                snap_direction = renderedDirection tg, snap_scale = fresh h,
                snap_costume = currentCostume tg, snap_ghost = ghost (effects tg)\<rparr>\<rparr>,
            \<lparr>arrays = (arrays h)(fresh h := renderedScale tg), fresh = Suc (fresh h)\<rparr>)
      else (tg\<lparr>interpolationData := None\<rparr>, h))"
  by (simp add: setup_target_def rendered_fresh)

lemma setup_target_extends: "extends h (snd (setup_target tg h))"
  by (simp add: setup_target_result extends_def)

lemma setup_target_stored:
  "stored_snapshot (snd (setup_target tg h)) (fst (setup_target tg h)) = expected_snapshot tg"
  by (simp add: setup_target_result stored_snapshot_def snapshot_values_def
        expected_snapshot_def)

lemma setup_target_allocated:
  "snapshots_allocated [fst (setup_target tg h)] (snd (setup_target tg h))"
  by (simp add: setup_target_result snapshots_allocated_def)

lemma setup_target_logical:
  "logical_state (fst (setup_target tg h)) = logical_state tg"
  by (simp add: setup_target_result logical_state_def)

lemma allocated_extends:
  "snapshots_allocated tgs h \<Longrightarrow> extends h h' \<Longrightarrow> snapshots_allocated tgs h'"
  by (auto simp: snapshots_allocated_def list_all_iff extends_def split: option.splits)

lemma allocated_Cons:
  "snapshots_allocated (tg # tgs) h =
     (snapshots_allocated [tg] h \<and> snapshots_allocated tgs h)"
  by (simp add: snapshots_allocated_def)

lemma setup_loop_props:
  "extends h (snd (setup_loop tgs h))
   \<and> map (stored_snapshot (snd (setup_loop tgs h))) (fst (setup_loop tgs h)) =
       map expected_snapshot tgs
   \<and> map logical_state (fst (setup_loop tgs h)) = map logical_state tgs
   \<and> snapshots_allocated (fst (setup_loop tgs h)) (snd (setup_loop tgs h))"
proof (induction tgs arbitrary: h)
  case Nil
  then show ?case by (simp add: snapshots_allocated_def)
next
  case (Cons tg tgs)
  let ?tg1 = "fst (setup_target tg h)"
  let ?h1 = "snd (setup_target tg h)"
  let ?tgs2 = "fst (setup_loop tgs ?h1)"
  let ?h2 = "snd (setup_loop tgs ?h1)"
  have res: "setup_loop (tg # tgs) h = (?tg1 # ?tgs2, ?h2)"
    by (simp add: split_beta Let_def)
  have e1: "extends h ?h1" by (rule setup_target_extends)
  have ih: "extends ?h1 ?h2"
    "map (stored_snapshot ?h2) ?tgs2 = map expected_snapshot tgs"
    "map logical_state ?tgs2 = map logical_state tgs"
    "snapshots_allocated ?tgs2 ?h2"
    using Cons.IH [of ?h1] by simp_all
  have a1: "snapshots_allocated [?tg1] ?h1" by (rule setup_target_allocated)
  have "map (stored_snapshot ?h2) [?tg1] = map (stored_snapshot ?h1) [?tg1]"
    by (rule stored_snapshot_extends [OF a1 ih(1)])
  then have s1: "stored_snapshot ?h2 ?tg1 = expected_snapshot tg"
    by (simp add: setup_target_stored)
  have a2: "snapshots_allocated [?tg1] ?h2" by (rule allocated_extends [OF a1 ih(1)])
  have "extends h ?h2" by (rule extends_trans [OF e1 ih(1)])
  moreover have "map (stored_snapshot ?h2) (?tg1 # ?tgs2) = map expected_snapshot (tg # tgs)"
    by (simp add: s1 ih(2))
  moreover have "map logical_state (?tg1 # ?tgs2) = map logical_state (tg # tgs)"
    by (simp add: setup_target_logical ih(3))
  moreover have "snapshots_allocated (?tg1 # ?tgs2) ?h2"
    using a2 ih(4) by (simp add: allocated_Cons [of ?tg1 ?tgs2])
  ultimately show ?case by (simp only: res fst_conv snd_conv) 
qed

text \<open>
  C6. After \<open>setupInitialState\<close>, target by target: a target that is visible and not
  the stage holds a snapshot whose x, y, direction, scale array content, costume and
  ghost are the target's values at the call, and any other target holds none. Nothing
  else of a target or of the runtime changes, and every snapshot's scale array exists
  in the resulting store.
\<close>

theorem C6_setup_captures_rendered_state:
  "map (stored_snapshot (snd (setupInitialState rt h))) (targets (fst (setupInitialState rt h))) =
     map expected_snapshot (targets rt)
   \<and> map logical_state (targets (fst (setupInitialState rt h))) = map logical_state (targets rt)
   \<and> renderer (fst (setupInitialState rt h)) = renderer rt
   \<and> snapshots_allocated (targets (fst (setupInitialState rt h))) (snd (setupInitialState rt h))"
  using setup_loop_props [of h "targets rt"]
  by (simp add: setupInitialState_def split_beta)


theorem C6_setup_captures_rendered_state_witness:
  "map (stored_snapshot (snd (setupInitialState
          \<lparr>targets = [sprite0\<lparr>target_x := 5, interpolationData := None\<rparr>,
                      sprite0\<lparr>visible := False\<rparr>,
                      sprite0\<lparr>isStage := True\<rparr>], renderer = None\<rparr> heap0)))
       (targets (fst (setupInitialState
          \<lparr>targets = [sprite0\<lparr>target_x := 5, interpolationData := None\<rparr>,
                      sprite0\<lparr>visible := False\<rparr>,
                      sprite0\<lparr>isStage := True\<rparr>], renderer = None\<rparr> heap0))) =
     [Some (5, 0, 90, (100, 100), 0, 0), None, None]"
  using C6_setup_captures_rendered_state
    [of "\<lparr>targets = [sprite0\<lparr>target_x := 5, interpolationData := None\<rparr>,
                      sprite0\<lparr>visible := False\<rparr>,
                      sprite0\<lparr>isStage := True\<rparr>], renderer = None\<rparr>" heap0]
  by (simp add: expected_snapshot_def sprite0_def)

subsection \<open>Raising\<close>

lemma target_raised:
  "raised (interpolate_target (r, h) tg time) =
     (if needs_drawable tg \<and> allDrawables r (drawableID tg) = None
      then Some TypeError else None)"
  by (simp add: interpolate_target_def interpolate_position_def needs_drawable_def Let_def
           split: option.splits)

lemma target_allDrawables:
  "allDrawables (fst (final (interpolate_target (r, h) tg time))) = allDrawables r"
proof (cases "interpolationData tg")
  case None
  then show ?thesis by (simp add: interpolate_target_def)
next
  case (Some d)
  show ?thesis
  proof (cases "interpolate_position r tg d time")
    case (Inl e)
    then show ?thesis using Some by (simp add: interpolate_target_def)
  next
    case (Inr r1)
    then show ?thesis
      using Some position_allDrawables [OF Inr]
      by (simp add: interpolate_target_def direction_scale_allDrawables)
  qed
qed

lemma loop_raised:
  "raised (interpolate_loop tgs time (r, h)) =
     (if list_ex (\<lambda>tg. needs_drawable tg \<and> allDrawables r (drawableID tg) = None) tgs
      then Some TypeError else None)"
proof (induction tgs arbitrary: r h)
  case Nil
  then show ?case by simp
next
  case (Cons tg tgs)
  show ?case
  proof (cases "interpolate_target (r, h) tg time")
    case (Normal s1)
    obtain r1 h1 where s1: "s1 = (r1, h1)" by (cases s1)
    have nr: "\<not> (needs_drawable tg \<and> allDrawables r (drawableID tg) = None)"
      using target_raised [of r h tg time] Normal by (simp split: if_splits)
    have ad: "allDrawables r1 = allDrawables r"
      using target_allDrawables [of r h tg time] Normal s1 by simp
    show ?thesis
      using Normal s1 nr Cons.IH [of r1 h1] by (simp add: ad)
  next
    case (Throw e s1)
    have "needs_drawable tg \<and> allDrawables r (drawableID tg) = None" "e = TypeError"
      using target_raised [of r h tg time] Throw by (simp_all split: if_splits)
    then show ?thesis using Throw by simp
  qed
qed

lemma interpolate_raised:
  "renderer rt = Some r \<Longrightarrow>
     raised (interpolate rt time h) = raised (interpolate_loop (targets rt) time (r, h))"
  by (cases "interpolate_loop (targets rt) time (r, h)")
     (simp_all add: interpolate_def split_beta)

text \<open>
  C2, as amended. \<open>setupInitialState\<close> always returns (it has no operation that can
  fail on a runtime of this shape, which is why its model has no error result). Without
  a renderer \<open>interpolate\<close> returns at once and changes nothing, and a target without
  a snapshot is skipped. With a renderer, \<open>interpolate\<close> raises exactly when some
  target that has a snapshot and has moved by more than 0.1 on an axis has no entry in
  the drawable table, and what it raises is a TypeError: line 52 calls \<open>getAABB\<close> on
  the result of the lookup without testing it.
\<close>

theorem C2_raises_exactly_on_missing_drawable:
  "(\<exists>rt' h'. setupInitialState rt h = (rt', h'))
   \<and> (renderer rt = None \<longrightarrow> interpolate rt time h = Normal (rt, h))
   \<and> (interpolationData tg = None \<longrightarrow> interpolate_target s tg time = Normal s)
   \<and> (\<forall>r. renderer rt = Some r \<longrightarrow>
         raised (interpolate rt time h) =
           (if list_ex (\<lambda>tg. needs_drawable tg \<and> allDrawables r (drawableID tg) = None)
                 (targets rt)
            then Some TypeError else None))"
proof -
  have returns: "\<exists>rt' h'. setupInitialState rt h = (rt', h')"
    by (simp add: setupInitialState_def split_beta)
  have absent: "renderer rt = None \<longrightarrow> interpolate rt time h = Normal (rt, h)"
    by (simp add: interpolate_def)
  have skipped: "interpolationData tg = None \<longrightarrow> interpolate_target s tg time = Normal s"
    by (simp add: interpolate_target_def)
  have present: "\<forall>r. renderer rt = Some r \<longrightarrow>
         raised (interpolate rt time h) =
           (if list_ex (\<lambda>tg. needs_drawable tg \<and> allDrawables r (drawableID tg) = None)
                 (targets rt)
            then Some TypeError else None)"
  proof (intro allI impI)
    fix r assume "renderer rt = Some r"
    then show "raised (interpolate rt time h) =
           (if list_ex (\<lambda>tg. needs_drawable tg \<and> allDrawables r (drawableID tg) = None)
                 (targets rt)
            then Some TypeError else None)"
      by (simp only: interpolate_raised loop_raised)
  qed
  from returns absent skipped present show ?thesis by blast
qed

theorem C2_raises_exactly_on_missing_drawable_witness:
  "raised (interpolate (scene (sprite0\<lparr>target_x := 5\<rparr>)) (1 / 2) heap0) = None
   \<and> interpolate (scene sprite0\<lparr>renderer := None\<rparr>) (1 / 2) heap0 =
       Normal (scene sprite0\<lparr>renderer := None\<rparr>, heap0)"
proof -
  have a: "renderer (scene (sprite0\<lparr>target_x := 5\<rparr>)) = Some renderer0"
    by (simp add: scene_def)
  have b: "renderer (scene sprite0\<lparr>renderer := None\<rparr>) = None" by simp
  have "raised (interpolate (scene (sprite0\<lparr>target_x := 5\<rparr>)) (1 / 2) heap0) = None"
    using C2_raises_exactly_on_missing_drawable
            [where rt = "scene (sprite0\<lparr>target_x := 5\<rparr>)" and time = "1 / 2" and h = heap0] a
    by (simp add: scene_def sprite0_def renderer0_def)
  moreover have "interpolate (scene sprite0\<lparr>renderer := None\<rparr>) (1 / 2) heap0 =
       Normal (scene sprite0\<lparr>renderer := None\<rparr>, heap0)"
    using C2_raises_exactly_on_missing_drawable
            [where rt = "scene sprite0\<lparr>renderer := None\<rparr>" and time = "1 / 2" and h = heap0] b
    by blast
  ultimately show ?thesis by simp
qed

text \<open>
  The claim C2 as stated fails: the example sprite, moved to x = 5 and given the
  drawable id 8 that the renderer does not know, has a snapshot, and the call raises.
\<close>

theorem C2_missing_drawable_raises:
  "interpolationData (sprite0\<lparr>target_x := 5, drawableID := 8\<rparr>) = Some snapshot0
   \<and> allDrawables renderer0 8 = None
   \<and> interpolate (scene (sprite0\<lparr>target_x := 5, drawableID := 8\<rparr>)) (1 / 2) heap0 =
       Throw TypeError (scene (sprite0\<lparr>target_x := 5, drawableID := 8\<rparr>), heap0)"
  by (simp add: scene_defs run_defs)

subsection \<open>Position and scale over the whole call\<close>

lemma target_position_rule:
  "filter is_position (calls (fst (final (interpolate_target (r, h) tg time)))) =
     filter is_position (calls r) @ position_rule (allDrawables r) time tg"
proof (cases "interpolationData tg")
  case None
  then show ?thesis by (simp add: interpolate_target_def position_rule_def)
next
  case (Some d)
  show ?thesis
    by (auto simp: target_position_calls [OF Some] position_rule_def Some
          interpolate_position_def updateDrawablePosition_def Let_def
          split: option.splits)
qed

lemma reached_Cons:
  "reached tbl (tg # tgs) =
     (if needs_drawable tg \<and> tbl (drawableID tg) = None then [] else tg # reached tbl tgs)"
  by (simp add: reached_def)

lemma loop_position_rule:
  "filter is_position (calls (fst (final (interpolate_loop tgs time (r, h))))) =
     filter is_position (calls r) @
       concat (map (position_rule (allDrawables r) time) (reached (allDrawables r) tgs))"
proof (induction tgs arbitrary: r h)
  case Nil
  then show ?case by (simp add: reached_def)
next
  case (Cons tg tgs)
  show ?case
  proof (cases "interpolate_target (r, h) tg time")
    case (Normal s1)
    obtain r1 h1 where s1: "s1 = (r1, h1)" by (cases s1)
    have nr: "\<not> (needs_drawable tg \<and> allDrawables r (drawableID tg) = None)"
      using target_raised [of r h tg time] Normal by (simp split: if_splits)
    have ad: "allDrawables r1 = allDrawables r"
      using target_allDrawables [of r h tg time] Normal s1 by simp
    have p1: "filter is_position (calls r1) =
                filter is_position (calls r) @ position_rule (allDrawables r) time tg"
      using target_position_rule [of r h tg time] Normal s1 by simp
    have "filter is_position (calls (fst (final (interpolate_loop tgs time (r1, h1))))) =
            filter is_position (calls r1) @
              concat (map (position_rule (allDrawables r) time) (reached (allDrawables r) tgs))"
      using Cons.IH [of r1 h1] by (simp only: ad)
    moreover have "reached (allDrawables r) (tg # tgs) = tg # reached (allDrawables r) tgs"
      using nr by (auto simp: reached_Cons)
    ultimately show ?thesis
      using Normal s1 by (simp add: p1)
  next
    case (Throw e s1)
    have lk: "needs_drawable tg \<and> allDrawables r (drawableID tg) = None"
      using target_raised [of r h tg time] Throw by (simp split: if_splits)
    have "filter is_position (calls (fst s1)) =
            filter is_position (calls r) @ position_rule (allDrawables r) time tg"
      using target_position_rule [of r h tg time] Throw by simp
    moreover have "position_rule (allDrawables r) time tg = []"
      using lk by (auto simp: position_rule_def needs_drawable_def split: option.splits)
    moreover have "reached (allDrawables r) (tg # tgs) = []"
      using lk by (simp add: reached_Cons)
    ultimately show ?thesis using Throw by simp
  qed
qed

lemma interpolate_calls:
  "renderer rt = Some r \<Longrightarrow>
     renderer_calls (fst (final (interpolate rt time h))) =
       calls (fst (final (interpolate_loop (targets rt) time (r, h))))"
  by (simp add: interpolate_final renderer_calls_def)

lemma reached_all:
  assumes "renderer rt = Some r" "raised (interpolate rt time h) = None"
  shows "reached (allDrawables r) (targets rt) = targets rt"
proof -
  have "\<not> list_ex (\<lambda>tg. needs_drawable tg \<and> allDrawables r (drawableID tg) = None) (targets rt)"
    using assms by (simp add: interpolate_raised loop_raised split: if_splits)
  then show ?thesis
    by (simp add: reached_def list_ex_iff)
qed

text \<open>
  C7, as amended. With a renderer attached, the position calls that \<open>interpolate\<close> adds
  to the log are exactly those of the position rule, target by target in list order, for
  the targets the call works through: all of them when it returns, and those before the
  first target that needs a drawable the table lacks when it raises. By the rule a move
  from (0,0) to (200,0) gives no call, whatever the bounding box and the time; and a move
  from (0,0) to (5,0) whose displacement is strictly below the tolerances gives the one
  call (2.5, 0) at time 0.5.
\<close>

theorem C7_position_calls_of_interpolate:
  assumes rd: "renderer rt = Some r"
  shows "filter is_position (renderer_calls (fst (final (interpolate rt time h)))) =
           filter is_position (calls r) @
             concat (map (position_rule (allDrawables r) time)
                         (reached (allDrawables r) (targets rt)))
         \<and> (raised (interpolate rt time h) = None \<longrightarrow>
               reached (allDrawables r) (targets rt) = targets rt)
         \<and> (\<forall>tg d. interpolationData tg = Some d \<and> snap_x d = 0 \<and> snap_y d = 0
                    \<and> target_x tg = 200 \<and> target_y tg = 0 \<longrightarrow>
               position_rule (allDrawables r) time tg = [])
         \<and> (\<forall>tg d drw. interpolationData tg = Some d \<and> snap_x d = 0 \<and> snap_y d = 0
                    \<and> target_x tg = 5 \<and> target_y tg = 0
                    \<and> allDrawables r (drawableID tg) = Some drw
                    \<and> 5 < min 50 (10 + width (getAABB drw))
                    \<and> 0 < min 50 (10 + height (getAABB drw)) \<longrightarrow>
               position_rule (allDrawables r) (1 / 2) tg =
                 [UpdateDrawablePosition (drawableID tg) (5 / 2, 0)])"
proof -
  have log: "filter is_position (renderer_calls (fst (final (interpolate rt time h)))) =
           filter is_position (calls r) @
             concat (map (position_rule (allDrawables r) time)
                         (reached (allDrawables r) (targets rt)))"
    by (simp only: interpolate_calls [OF rd] loop_position_rule)
  have every: "raised (interpolate rt time h) = None \<longrightarrow>
               reached (allDrawables r) (targets rt) = targets rt"
    using reached_all [OF rd] by blast
  have teleport: "\<forall>tg d. interpolationData tg = Some d \<and> snap_x d = 0 \<and> snap_y d = 0
                    \<and> target_x tg = 200 \<and> target_y tg = 0 \<longrightarrow>
               position_rule (allDrawables r) time tg = []"
    by (auto simp: position_rule_def split: option.splits)
  have move: "\<forall>tg d drw. interpolationData tg = Some d \<and> snap_x d = 0 \<and> snap_y d = 0
                    \<and> target_x tg = 5 \<and> target_y tg = 0
                    \<and> allDrawables r (drawableID tg) = Some drw
                    \<and> 5 < min 50 (10 + width (getAABB drw))
                    \<and> 0 < min 50 (10 + height (getAABB drw)) \<longrightarrow>
               position_rule (allDrawables r) (1 / 2) tg =
                 [UpdateDrawablePosition (drawableID tg) (5 / 2, 0)]"
    by (auto simp: position_rule_def)
  from log every teleport move show ?thesis by blast
qed

theorem C7_position_calls_of_interpolate_witness:
  "filter is_position (renderer_calls (fst (final (interpolate
       \<lparr>targets = [sprite0\<lparr>target_x := 200\<rparr>, sprite0, sprite0\<lparr>target_x := 5\<rparr>],
        renderer = Some renderer0\<rparr> (1 / 2) heap0)))) =
     [UpdateDrawablePosition 7 (5 / 2, 0)]"
proof -
  let ?rt = "\<lparr>targets = [sprite0\<lparr>target_x := 200\<rparr>, sprite0, sprite0\<lparr>target_x := 5\<rparr>],
              renderer = Some renderer0\<rparr>"
  have rd: "renderer ?rt = Some renderer0" by simp
  show ?thesis
    using C7_position_calls_of_interpolate [OF rd, of "1 / 2" heap0]
    by (simp add: reached_def needs_drawable_def position_rule_def sprite0_def snapshot0_def
          renderer0_def)
qed

text \<open>
  The claim C7 as stated fails twice. A sprite moved by 5, with its drawable present and
  a tolerance of 50, gets no position call when an earlier target of the list makes the
  call raise, although alone it gets (2.5, 0). And with a tolerance of exactly 5 (a
  bounding box of width -5) the displacement 5 meets the tolerance, so nothing is pushed.
\<close>

theorem C7_push_skipped_after_raise_or_at_tolerance:
  "filter is_position (renderer_calls (fst (final (interpolate
       \<lparr>targets = [sprite0\<lparr>target_x := 5, drawableID := 8\<rparr>, sprite0\<lparr>target_x := 5\<rparr>],
        renderer = Some renderer0\<rparr> (1 / 2) heap0)))) = []
   \<and> filter is_position (renderer_calls (fst (final (interpolate
       \<lparr>targets = [sprite0\<lparr>target_x := 5\<rparr>], renderer = Some renderer0\<rparr> (1 / 2) heap0)))) =
       [UpdateDrawablePosition 7 (5 / 2, 0)]
   \<and> filter is_position (renderer_calls (fst (final (interpolate
       \<lparr>targets = [sprite0\<lparr>target_x := 5\<rparr>],
        renderer = Some (renderer0\<lparr>allDrawables :=
                     [7 \<mapsto> \<lparr>getAABB = \<lparr>width = - 5, height = 40\<rparr>\<rparr>]\<rparr>)\<rparr>
       (1 / 2) heap0)))) = []
   \<and> min 50 (10 + width \<lparr>width = - 5, height = 40\<rparr>) = (5::real)"
  by (simp add: scene_defs run_defs)








end
